theory Spec2Isabelle
  imports Complex_Main
begin

section \<open>The uploaded table\<close>

text \<open>
  The dashboard of \<^verbatim>\<open>dashboard.py\<close> is one script: it reads an uploaded CSV into a
  pandas table, coerces six columns to float, lets the user pick a warehouse, filters the
  table to it, aggregates per cluster and draws a map and a summary table.

  Modelling decisions, all of them about pandas, which the script calls:
  \<^item> a float is a \<open>real option\<close>: \<open>None\<close> is NaN (pandas's missing value), \<open>Some x\<close>
    a finite number. Every sum and quotient that the aggregations compute is rounded to
    float64 (53 significant bits, to nearest, ties to even). The exponent is not
    bounded: overflow to infinity and subnormal numbers are not modelled;
  \<^item> a cell of a column as \<^verbatim>\<open>read_csv\<close> delivers it is a \<open>cell\<close>: missing, a number, a
    boolean, or text;
  \<^item> a text or identifier column is a \<open>string option\<close> column, \<open>None\<close> being NaN;
  \<^item> a table is the list of its rows in order, each with its index label.
\<close>

datatype cell = Missing | Num real | Bool bool | Str string

datatype error = ValueError | KeyError

text \<open>
  One row of the table. \<open>'n\<close> is the type of the six coordinate and distance columns
  (text in the file, \<open>cell\<close> as read, \<open>real option\<close> after \<open>astype(float)\<close>), \<open>'g\<close> the type of
  \<open>partner_gmv\<close>, which the script never converts, and \<open>'k\<close> the type of cluster labels.
\<close>

record ('n, 'g, 'k) row =
  customer_id :: "string option"
  latitude :: 'n
  longitude :: 'n
  wh_lat :: 'n
  wh_long :: 'n
  warehouse_name :: "string option"
  k_means :: "'k option"
  cx_status :: "string option"
  partner_gmv :: 'g
  distance_km :: 'n
  dist_from_wh :: 'n
  last_order_date :: "string option"

type_synonym ('n, 'g, 'k) frame = "(nat \<times> ('n, 'g, 'k) row) list"

text \<open>
  Assigning six columns of a table, given as lists in row order, to the six coordinate and
  distance columns; the other columns and the index labels stay.
\<close>

definition assign_columns ::
  "('a, 'g, 'k) frame \<Rightarrow> 'b list \<Rightarrow> 'b list \<Rightarrow> 'b list \<Rightarrow> 'b list \<Rightarrow> 'b list \<Rightarrow> 'b list \<Rightarrow>
   ('b, 'g, 'k) frame" where
  "assign_columns df lat lon wlat wlong dkm dwh =
     map (\<lambda>j. case df ! j of (i, r) \<Rightarrow>
            (i, \<lparr> customer_id = customer_id r,
                  latitude = lat ! j,
                  longitude = lon ! j,
                  wh_lat = wlat ! j,
                  wh_long = wlong ! j,
                  warehouse_name = warehouse_name r,
                  k_means = k_means r,
                  cx_status = cx_status r,
                  partner_gmv = partner_gmv r,
                  distance_km = dkm ! j,
                  dist_from_wh = dwh ! j,
                  last_order_date = last_order_date r \<rparr>))
         [0..<length df]"

text \<open>
  \<^verbatim>\<open>df = pd.read_csv(uploaded_file)\<close>, for the six columns that the script converts: the
  input is the text of their fields. pandas reads a field whose text is one of its NA
  tokens as NaN. Of the other fields of a column it asks whether all are numbers, then
  whether all are booleans: the column becomes a column of numbers, or of booleans, or
  else keeps the text of every field. Which text is a number, and which number, is the
  parameter \<open>num\<close>. The other columns are taken as pandas delivers them, and the rows get
  the fresh index \<open>0, 1, 2, ...\<close>.
\<close>

definition na_values :: "string list" where
  "na_values =
     ['''', ''#N/A'', ''#N/A N/A'', ''#NA'', ''-1.#IND'', ''-1.#QNAN'', ''-NaN'', ''-nan'',
      ''1.#IND'', ''1.#QNAN'', ''<NA>'', ''N/A'', ''NA'', ''NULL'', ''NaN'', ''None'',
      ''n/a'', ''nan'', ''null'']"

definition true_values :: "string list" where
  "true_values = [''True'', ''TRUE'', ''true'']"

definition false_values :: "string list" where
  "false_values = [''False'', ''FALSE'', ''false'']"

type_synonym csvnum = "string \<Rightarrow> real option"

definition numeric_column :: "csvnum \<Rightarrow> string list \<Rightarrow> bool" where
  "numeric_column num col = (\<forall>t \<in> set col. t \<notin> set na_values \<longrightarrow> num t \<noteq> None)"

definition bool_column :: "string list \<Rightarrow> bool" where
  "bool_column col =
     (\<forall>t \<in> set col. t \<notin> set na_values \<longrightarrow> t \<in> set true_values \<or> t \<in> set false_values)"

definition parse_column :: "csvnum \<Rightarrow> string list \<Rightarrow> cell list" where
  "parse_column num col =
     (if numeric_column num col then
        map (\<lambda>t. if t \<in> set na_values then Missing
                 else (case num t of Some x \<Rightarrow> Num x | None \<Rightarrow> Str t)) col
      else if bool_column col then
        map (\<lambda>t. if t \<in> set na_values then Missing else Bool (t \<in> set true_values)) col
      else
        map (\<lambda>t. if t \<in> set na_values then Missing else Str t) col)"

definition read_csv :: "csvnum \<Rightarrow> (string, 'g, 'k) row list \<Rightarrow> (cell, 'g, 'k) frame" where
  "read_csv num rows =
     assign_columns (zip [0..<length rows] rows)
       (parse_column num (map latitude rows))
       (parse_column num (map longitude rows))
       (parse_column num (map wh_lat rows))
       (parse_column num (map wh_long rows))
       (parse_column num (map distance_km rows))
       (parse_column num (map dist_from_wh rows))"

section \<open>Ingestion: the six \<^verbatim>\<open>astype(float)\<close> calls\<close>

text \<open>
  \<^verbatim>\<open>astype(float)\<close> keeps NaN and numbers, turns a boolean into 1 or 0 and calls Python's
  \<^verbatim>\<open>float\<close> on text.
  Python's \<^verbatim>\<open>float\<close> on a string is a parameter \<open>pf\<close>: \<open>None\<close> where it raises
  ValueError, \<open>Some None\<close> where it returns NaN, \<open>Some (Some x)\<close> for a number.
\<close>

type_synonym pyfloat = "string \<Rightarrow> real option option"

fun to_float :: "pyfloat \<Rightarrow> cell \<Rightarrow> error + real option" where
  "to_float pf Missing = Inr None"
| "to_float pf (Num x) = Inr (Some x)"
| "to_float pf (Bool b) = Inr (Some (if b then 1 else 0))"
| "to_float pf (Str s) = (case pf s of None \<Rightarrow> Inl ValueError | Some v \<Rightarrow> Inr v)"

fun astype_float :: "pyfloat \<Rightarrow> cell list \<Rightarrow> error + real option list" where
  "astype_float pf [] = Inr []"
| "astype_float pf (c # cs) =
     (case to_float pf c of
        Inl e \<Rightarrow> Inl e
      | Inr v \<Rightarrow> (case astype_float pf cs of Inl e \<Rightarrow> Inl e | Inr vs \<Rightarrow> Inr (v # vs)))"

text \<open>
  Lines 34 to 39: the columns are converted one after the other, in the order of the
  script; the first conversion that raises ends ingestion.
\<close>

definition ingest :: "pyfloat \<Rightarrow> (cell, 'g, 'k) frame \<Rightarrow> error + (real option, 'g, 'k) frame" where
  "ingest pf df =
     (case astype_float pf (map (latitude \<circ> snd) df) of Inl e \<Rightarrow> Inl e | Inr lat \<Rightarrow>
     (case astype_float pf (map (longitude \<circ> snd) df) of Inl e \<Rightarrow> Inl e | Inr lon \<Rightarrow>
     (case astype_float pf (map (wh_lat \<circ> snd) df) of Inl e \<Rightarrow> Inl e | Inr wlat \<Rightarrow>
     (case astype_float pf (map (wh_long \<circ> snd) df) of Inl e \<Rightarrow> Inl e | Inr wlong \<Rightarrow>
     (case astype_float pf (map (distance_km \<circ> snd) df) of Inl e \<Rightarrow> Inl e | Inr dkm \<Rightarrow>
     (case astype_float pf (map (dist_from_wh \<circ> snd) df) of Inl e \<Rightarrow> Inl e | Inr dwh \<Rightarrow>
        Inr (assign_columns df lat lon wlat wlong dkm dwh)))))))"

section \<open>Warehouse selection\<close>

text \<open>
  \<^verbatim>\<open>Series.unique()\<close>: the values in order of first appearance, found with a table of
  the values seen so far. NaN is a value like the others and is kept once.
\<close>

primrec unique_from :: "'a list \<Rightarrow> 'a list \<Rightarrow> 'a list" where
  "unique_from seen [] = []"
| "unique_from seen (x # xs) =
     (if x \<in> set seen then unique_from seen xs else x # unique_from (x # seen) xs)"

definition unique :: "'a list \<Rightarrow> 'a list" where
  "unique xs = unique_from [] xs"

definition warehouses :: "('n, 'g, 'k) frame \<Rightarrow> string option list" where
  "warehouses df = unique (map (warehouse_name \<circ> snd) df)"

text \<open>
  \<^verbatim>\<open>st.selectbox\<close> returns the option at the position the user picked (position 0 when
  nothing was picked yet), and Python's \<^verbatim>\<open>None\<close> when there is no option at all. The
  model writes \<open>None\<close> for both NaN and Python's \<^verbatim>\<open>None\<close>: neither is equal to any
  cell of the column.
\<close>

definition selectbox :: "'a option list \<Rightarrow> nat \<Rightarrow> 'a option" where
  "selectbox options pick = (if pick < length options then options ! pick else None)"

text \<open>
  The elementwise \<^verbatim>\<open>==\<close> of a column with a value: NaN is equal to nothing, itself
  included.
\<close>

definition series_eq :: "'a option \<Rightarrow> 'a option \<Rightarrow> bool" where
  "series_eq a b = (case (a, b) of (Some x, Some y) \<Rightarrow> x = y | _ \<Rightarrow> False)"

text \<open>Line 47: \<^verbatim>\<open>wh_data = df[df['warehouse_name'] == selected_warehouse]\<close>.\<close>

definition wh_data :: "('n, 'g, 'k) frame \<Rightarrow> string option \<Rightarrow> ('n, 'g, 'k) frame" where
  "wh_data df selected_warehouse =
     filter (\<lambda>(i, r). series_eq (warehouse_name r) selected_warehouse) df"

section \<open>Aggregation\<close>

text \<open>
  \<^verbatim>\<open>groupby('k_means')\<close>: one group per label, the labels sorted, rows without a label
  left out (pandas's default \<^verbatim>\<open>dropna=True\<close>), each group keeping its rows in table
  order with their index labels.
\<close>

definition dropna :: "'a option list \<Rightarrow> 'a list" where
  "dropna xs = List.map_filter id xs"

definition group_keys :: "('n, 'g, 'k::linorder) frame \<Rightarrow> 'k list" where
  "group_keys wh = sort (unique (dropna (map (k_means \<circ> snd) wh)))"

definition groupby_k_means ::
  "('n, 'g, 'k::linorder) frame \<Rightarrow> ('k \<times> ('n, 'g, 'k) frame) list" where
  "groupby_k_means wh =
     map (\<lambda>k. (k, filter (\<lambda>(i, r). k_means r = Some k) wh)) (group_keys wh)"

text \<open>
  float64 arithmetic: the exact result of an operation, rounded to the nearest number with
  53 significant bits, a tie going to the even one. \<open>ulp64 x\<close> is the distance between
  neighbouring float64 numbers at the size of \<open>x\<close>.
\<close>

definition rne :: "real \<Rightarrow> int" where
  "rne y =
     (let f = \<lfloor>y\<rfloor>; d = y - of_int f
      in if d < 1/2 then f else if 1/2 < d then f + 1 else if even f then f else f + 1)"

definition ulp64 :: "real \<Rightarrow> real" where
  "ulp64 x = 2 powr (of_int \<lfloor>log 2 \<bar>x\<bar>\<rfloor> - 52)"

definition fl64 :: "real \<Rightarrow> real" where
  "fl64 x = (if x = 0 then 0 else of_int (rne (x / ulp64 x)) * ulp64 x)"

text \<open>A float64 sum, the numbers added one after the other from the left.\<close>

definition fl_sum :: "real list \<Rightarrow> real" where
  "fl_sum xs = foldl (\<lambda>s x. fl64 (s + x)) 0 xs"

text \<open>
  The aggregations \<^verbatim>\<open>'mean'\<close>, \<^verbatim>\<open>'sum'\<close> and \<^verbatim>\<open>'count'\<close> of pandas skip NaN: the mean
  of no number is NaN, the sum of no number is 0, and count counts the cells present. The
  mean is the float64 sum divided, in float64, by the number of cells present. (pandas
  may add in another order or with a compensation term; the result is then another
  float64 number next to this one.)
\<close>

definition agg_mean :: "real option list \<Rightarrow> real option" where
  "agg_mean xs =
     (let vs = dropna xs
      in if vs = [] then None else Some (fl64 (fl_sum vs / real (length vs))))"

definition agg_sum :: "real option list \<Rightarrow> real" where
  "agg_sum xs = fl_sum (dropna xs)"

definition agg_count :: "'a option list \<Rightarrow> nat" where
  "agg_count xs = length (dropna xs)"

text \<open>Lines 58 to 65: the centroid table, before the two count columns are added.\<close>

record 'k cluster_agg =
  cd_k_means :: 'k
  cd_latitude :: "real option"
  cd_longitude :: "real option"
  cd_partner_gmv :: real
  cd_distance_km :: "real option"
  cd_customer_id :: nat
  cd_cx_status :: "string option list"

record 'k cluster_row = "'k cluster_agg" +
  cd_transacting_count :: nat
  cd_non_transacting_count :: nat

definition cluster_agg ::
  "(real option, real option, 'k::linorder) frame \<Rightarrow> 'k cluster_agg list" where
  "cluster_agg wh =
     map (\<lambda>(k, g).
            \<lparr> cd_k_means = k,
              cd_latitude = agg_mean (map (latitude \<circ> snd) g),
              cd_longitude = agg_mean (map (longitude \<circ> snd) g),
              cd_partner_gmv = agg_sum (map (partner_gmv \<circ> snd) g),
              cd_distance_km = agg_mean (map (distance_km \<circ> snd) g),
              cd_customer_id = agg_count (map (customer_id \<circ> snd) g),
              cd_cx_status = map (cx_status \<circ> snd) g \<rparr>)
         (groupby_k_means wh)"

text \<open>
  Lines 68 and 69: \<^verbatim>\<open>x.count('Transacting')\<close> on the Python list of the group's
  statuses counts the elements equal to the string; NaN is equal to none.
\<close>

definition cluster_data ::
  "(real option, real option, 'k::linorder) frame \<Rightarrow> 'k cluster_row list" where
  "cluster_data wh =
     map (\<lambda>a. cluster_agg.extend a
            \<lparr> cd_transacting_count = count_list (cd_cx_status a) (Some ''Transacting''),
              cd_non_transacting_count = count_list (cd_cx_status a) (Some ''Non-Transacting'') \<rparr>)
         (cluster_agg wh)"

section \<open>The summary table\<close>

text \<open>
  \<^verbatim>\<open>wh_data.loc[x.index, 'cx_status']\<close>: the statuses of the rows of \<open>wh\<close> that carry
  the given index labels, looked up label by label; a label that \<open>wh\<close> does not have
  raises KeyError.
\<close>

fun loc_cx_status ::
  "('n, 'g, 'k) frame \<Rightarrow> nat list \<Rightarrow> error + (nat \<times> string option) list" where
  "loc_cx_status wh [] = Inr []"
| "loc_cx_status wh (i # idx) =
     (case map_of wh i of
        None \<Rightarrow> Inl KeyError
      | Some r \<Rightarrow>
          (case loc_cx_status wh idx of
             Inl e \<Rightarrow> Inl e
           | Inr ss \<Rightarrow> Inr ((i, cx_status r) # ss)))"

text \<open>
  \<^verbatim>\<open>x[mask]\<close> for a boolean mask over the index of \<open>x\<close> itself: the entries of \<open>x\<close>
  at the positions where the mask holds.
\<close>

definition bool_index :: "(nat \<times> 'a) list \<Rightarrow> (nat \<times> bool) list \<Rightarrow> (nat \<times> 'a) list" where
  "bool_index x msk = map fst (filter (\<lambda>(xv, (j, b)). b) (zip x msk))"

text \<open>
  The four lambdas of lines 77 to 80, for a column \<open>col\<close> and a status \<open>status\<close>:
  \<^verbatim>\<open>lambda x: x[wh_data.loc[x.index,'cx_status']==status].mean()\<close>, where \<open>x\<close> is the
  group's part of the column.
\<close>

definition status_mean ::
  "('n, 'g, 'k) frame \<Rightarrow> string \<Rightarrow> (nat \<times> real option) list \<Rightarrow> error + real option" where
  "status_mean wh status x =
     (case loc_cx_status wh (map fst x) of
        Inl e \<Rightarrow> Inl e
      | Inr ss \<Rightarrow>
          Inr (agg_mean (map snd
                 (bool_index x (map (\<lambda>(i, s). (i, series_eq s (Some status))) ss)))))"

text \<open>
  The two lambdas of lines 75 and 76: \<^verbatim>\<open>lambda x: (x==status).sum()\<close>, the number of
  cells of the group's status column that are equal to the status.
\<close>

definition status_count :: "string \<Rightarrow> (nat \<times> string option) list \<Rightarrow> nat" where
  "status_count status x = length (filter (\<lambda>(i, s). series_eq s (Some status)) x)"

record 'k summary_row =
  cs_k_means :: 'k
  transacting_count :: nat
  non_transacting_count :: nat
  avg_pgmv_transacting :: "real option"
  avg_pgmv_nontransacting :: "real option"
  avg_dist_transacting :: "real option"
  avg_dist_nontransacting :: "real option"

definition column :: "(('n, 'g, 'k) row \<Rightarrow> 'a) \<Rightarrow> ('n, 'g, 'k) frame \<Rightarrow> (nat \<times> 'a) list" where
  "column col g = map (\<lambda>(i, r). (i, col r)) g"

definition summary_of_group ::
  "(real option, real option, 'k) frame \<Rightarrow> 'k \<Rightarrow> (real option, real option, 'k) frame \<Rightarrow>
   error + 'k summary_row" where
  "summary_of_group wh k g =
     (case status_mean wh ''Transacting'' (column partner_gmv g) of Inl e \<Rightarrow> Inl e | Inr pt \<Rightarrow>
     (case status_mean wh ''Non-Transacting'' (column partner_gmv g) of Inl e \<Rightarrow> Inl e | Inr pn \<Rightarrow>
     (case status_mean wh ''Transacting'' (column dist_from_wh g) of Inl e \<Rightarrow> Inl e | Inr dt \<Rightarrow>
     (case status_mean wh ''Non-Transacting'' (column dist_from_wh g) of Inl e \<Rightarrow> Inl e | Inr dn \<Rightarrow>
        Inr \<lparr> cs_k_means = k,
              transacting_count = status_count ''Transacting'' (column cx_status g),
              non_transacting_count = status_count ''Non-Transacting'' (column cx_status g),
              avg_pgmv_transacting = pt,
              avg_pgmv_nontransacting = pn,
              avg_dist_transacting = dt,
              avg_dist_nontransacting = dn \<rparr>))))"

fun summary_rows ::
  "(real option, real option, 'k) frame \<Rightarrow> ('k \<times> (real option, real option, 'k) frame) list \<Rightarrow>
   error + 'k summary_row list" where
  "summary_rows wh [] = Inr []"
| "summary_rows wh ((k, g) # gs) =
     (case summary_of_group wh k g of
        Inl e \<Rightarrow> Inl e
      | Inr s \<Rightarrow> (case summary_rows wh gs of Inl e \<Rightarrow> Inl e | Inr ss \<Rightarrow> Inr (s # ss)))"

text \<open>Lines 74 to 81.\<close>

definition cluster_summary ::
  "(real option, real option, 'k::linorder) frame \<Rightarrow> error + 'k summary_row list" where
  "cluster_summary wh = summary_rows wh (groupby_k_means wh)"

section \<open>The map and the page\<close>

text \<open>
  The figure is the list of its traces in drawing order and the centre of the map. A
  hover text is kept as the values it shows; their formatting to two decimals is not
  modelled.
\<close>

record 'k customer_point =
  pt_lat :: "real option"
  pt_lon :: "real option"
  pt_customer :: "string option"
  pt_last_order :: "string option"
  pt_dist_from_wh :: "real option"
  pt_pgmv :: "real option"
  pt_cluster :: "'k option"

datatype 'k trace =
    Clusters "'k cluster_row list"
  | Line "real option list" "real option list"
  | Customers string "'k customer_point list"

record 'k figure =
  traces :: "'k trace list"
  mapbox_center :: "real option \<times> real option"

definition customer_points ::
  "(real option, real option, 'k) frame \<Rightarrow> 'k customer_point list" where
  "customer_points rows =
     map (\<lambda>(i, r). \<lparr> pt_lat = latitude r, pt_lon = longitude r,
                      pt_customer = customer_id r, pt_last_order = last_order_date r,
                      pt_dist_from_wh = dist_from_wh r, pt_pgmv = partner_gmv r,
                      pt_cluster = k_means r \<rparr>) rows"

text \<open>Lines 120 and 121.\<close>

definition transacting :: "('n, 'g, 'k) frame \<Rightarrow> ('n, 'g, 'k) frame" where
  "transacting wh = filter (\<lambda>(i, r). series_eq (cx_status r) (Some ''Transacting'')) wh"

definition non_transacting :: "('n, 'g, 'k) frame \<Rightarrow> ('n, 'g, 'k) frame" where
  "non_transacting wh = filter (\<lambda>(i, r). series_eq (cx_status r) (Some ''Non-Transacting'')) wh"

text \<open>Lines 86 to 165, for the warehouse coordinate read at lines 52 and 53.\<close>

definition make_figure ::
  "real option \<Rightarrow> real option \<Rightarrow> 'k cluster_row list \<Rightarrow>
   (real option, real option, 'k) frame \<Rightarrow> 'k figure" where
  "make_figure whlat whlong cd wh =
     \<lparr> traces =
         [Clusters cd]
         @ map (\<lambda>c. Line [whlat, cd_latitude c] [whlong, cd_longitude c]) cd
         @ [Customers ''Transacting CX'' (customer_points (transacting wh)),
            Customers ''Non-Transacting CX'' (customer_points (non_transacting wh))],
       mapbox_center = (whlat, whlong) \<rparr>"

text \<open>
  What the page shows after one run of the script: the request for a file, an exception,
  the warning of line 49 (after which \<^verbatim>\<open>st.stop()\<close> ends the run), or the map with
  the summary table.
\<close>

datatype 'k page =
    Info_upload
  | Raised error
  | Warning_no_data
  | Shown "'k figure" "'k summary_row list"

text \<open>
  Lines 48 to 171, for the filtered table: the guard on the empty table, the warehouse
  coordinate from the first row (\<^verbatim>\<open>wh_data.iloc[0]\<close>), the two aggregations and the
  figure.
\<close>

definition render :: "(real option, real option, 'k::linorder) frame \<Rightarrow> 'k page" where
  "render wh =
     (case wh of
        [] \<Rightarrow> Warning_no_data
      | (i0, r0) # rest \<Rightarrow>
          (let cd = cluster_data wh
           in case cluster_summary wh of
                Inl e \<Rightarrow> Raised e
              | Inr cs \<Rightarrow> Shown (make_figure (wh_lat r0) (wh_long r0) cd wh) cs))"

text \<open>
  The whole script, for the uploaded file (if any) and the position picked in the selector;
  \<open>num\<close> and \<open>pf\<close> are the two readings of text as a number, by \<^verbatim>\<open>read_csv\<close> and by
  Python's \<^verbatim>\<open>float\<close>.
\<close>

definition dashboard ::
  "csvnum \<Rightarrow> pyfloat \<Rightarrow> (string, real option, 'k::linorder) row list option \<Rightarrow> nat \<Rightarrow>
   'k page" where
  "dashboard num pf uploaded_file pick =
     (case uploaded_file of
        None \<Rightarrow> Info_upload
      | Some rows \<Rightarrow>
          (case ingest pf (read_csv num rows) of
             Inl e \<Rightarrow> Raised e
           | Inr df \<Rightarrow>
               (let selected_warehouse = selectbox (warehouses df) pick
                in render (wh_data df selected_warehouse))))"

section \<open>Vocabulary of the properties\<close>

text \<open>
  The definitions of this section are not part of the script. They say, directly on the
  rows of a table and without index labels or grouping, what the properties below compare
  the script's results with.
\<close>

text \<open>The position at which a value first appears in a column.\<close>

definition first_position :: "'a list \<Rightarrow> 'a \<Rightarrow> nat" where
  "first_position xs x = length (takeWhile (\<lambda>y. y \<noteq> x) xs)"

text \<open>The rows of a table that carry a cluster label, in table order.\<close>

definition cluster_rows :: "('n, 'g, 'k) frame \<Rightarrow> 'k \<Rightarrow> ('n, 'g, 'k) row list" where
  "cluster_rows wh k = filter (\<lambda>r. k_means r = Some k) (map snd wh)"






text \<open>The rows with a given status.\<close>

definition with_status :: "string \<Rightarrow> ('n, 'g, 'k) row list \<Rightarrow> ('n, 'g, 'k) row list" where
  "with_status st rs = filter (\<lambda>r. cx_status r = Some st) rs"

text \<open>The rows of the two aggregate tables, computed from the rows of one cluster alone.\<close>

definition agg_of_rows ::
  "'k \<Rightarrow> (real option, real option, 'k) row list \<Rightarrow> 'k cluster_agg" where
  "agg_of_rows k rs =
     \<lparr> cd_k_means = k,
       cd_latitude = agg_mean (map latitude rs),
       cd_longitude = agg_mean (map longitude rs),
       cd_partner_gmv = agg_sum (map partner_gmv rs),
       cd_distance_km = agg_mean (map distance_km rs),
       cd_customer_id = agg_count (map customer_id rs),
       cd_cx_status = map cx_status rs \<rparr>"

definition summary_of_rows ::
  "'k \<Rightarrow> (real option, real option, 'k) row list \<Rightarrow> 'k summary_row" where
  "summary_of_rows k rs =
     \<lparr> cs_k_means = k,
       transacting_count = length (with_status ''Transacting'' rs),
       non_transacting_count = length (with_status ''Non-Transacting'' rs),
       avg_pgmv_transacting = agg_mean (map partner_gmv (with_status ''Transacting'' rs)),
       avg_pgmv_nontransacting = agg_mean (map partner_gmv (with_status ''Non-Transacting'' rs)),
       avg_dist_transacting = agg_mean (map dist_from_wh (with_status ''Transacting'' rs)),
       avg_dist_nontransacting = agg_mean (map dist_from_wh (with_status ''Non-Transacting'' rs)) \<rparr>"

text \<open>
  A cell that \<^verbatim>\<open>astype(float)\<close> cannot convert: text that Python's \<^verbatim>\<open>float\<close> rejects.
  The float a convertible cell becomes, the six columns of a row that the script converts,
  and a row with these six columns converted and the other columns as they were.
\<close>

definition non_numeric :: "pyfloat \<Rightarrow> cell \<Rightarrow> bool" where
  "non_numeric pf c = (case c of Str s \<Rightarrow> pf s = None | _ \<Rightarrow> False)"

definition float_value :: "pyfloat \<Rightarrow> cell \<Rightarrow> real option" where
  "float_value pf c =
     (case c of Missing \<Rightarrow> None | Num x \<Rightarrow> Some x | Bool b \<Rightarrow> Some (if b then 1 else 0)
      | Str s \<Rightarrow> (case pf s of None \<Rightarrow> None | Some v \<Rightarrow> v))"

definition float_columns :: "('n, 'g, 'k) row \<Rightarrow> 'n list" where
  "float_columns r = [latitude r, longitude r, wh_lat r, wh_long r, distance_km r, dist_from_wh r]"

definition coerced_row :: "pyfloat \<Rightarrow> (cell, 'g, 'k) row \<Rightarrow> (real option, 'g, 'k) row" where
  "coerced_row pf r =
     \<lparr> customer_id = customer_id r,
       latitude = float_value pf (latitude r),
       longitude = float_value pf (longitude r),
       wh_lat = float_value pf (wh_lat r),
       wh_long = float_value pf (wh_long r),
       warehouse_name = warehouse_name r,
       k_means = k_means r,
       cx_status = cx_status r,
       partner_gmv = partner_gmv r,
       distance_km = float_value pf (distance_km r),
       dist_from_wh = float_value pf (dist_from_wh r),
       last_order_date = last_order_date r \<rparr>"

text \<open>
  The same on the text of the file. The six columns of an upload as lists of text. A
  column that ingestion rejects: it is read neither as numbers nor as booleans, and Python's
  \<^verbatim>\<open>float\<close> rejects one of its fields that is not an NA token. The float that the text
  \<open>t\<close> of a field of the column \<open>col\<close> becomes otherwise: NaN for an NA token, the number
  read by \<^verbatim>\<open>read_csv\<close> in a column of numbers, 1 or 0 in a column of booleans, and what
  Python's \<^verbatim>\<open>float\<close> makes of the text in a column of text.
\<close>

definition float_texts :: "(string, 'g, 'k) row list \<Rightarrow> string list list" where
  "float_texts rows =
     [map latitude rows, map longitude rows, map wh_lat rows, map wh_long rows,
      map distance_km rows, map dist_from_wh rows]"

definition rejected_column :: "pyfloat \<Rightarrow> csvnum \<Rightarrow> string list \<Rightarrow> bool" where
  "rejected_column pf num col =
     (\<not> numeric_column num col \<and> \<not> bool_column col \<and>
      (\<exists>t \<in> set col. t \<notin> set na_values \<and> pf t = None))"

definition text_float :: "pyfloat \<Rightarrow> csvnum \<Rightarrow> string list \<Rightarrow> string \<Rightarrow> real option" where
  "text_float pf num col t =
     (if t \<in> set na_values then None
      else if numeric_column num col then num t
      else if bool_column col then Some (if t \<in> set true_values then 1 else 0)
      else (case pf t of None \<Rightarrow> None | Some v \<Rightarrow> v))"

definition converted_row ::
  "pyfloat \<Rightarrow> csvnum \<Rightarrow> (string, 'g, 'k) row list \<Rightarrow> (string, 'g, 'k) row \<Rightarrow>
   (real option, 'g, 'k) row" where
  "converted_row pf num rows r =
     \<lparr> customer_id = customer_id r,
       latitude = text_float pf num (map latitude rows) (latitude r),
       longitude = text_float pf num (map longitude rows) (longitude r),
       wh_lat = text_float pf num (map wh_lat rows) (wh_lat r),
       wh_long = text_float pf num (map wh_long rows) (wh_long r),
       warehouse_name = warehouse_name r,
       k_means = k_means r,
       cx_status = cx_status r,
       partner_gmv = partner_gmv r,
       distance_km = text_float pf num (map distance_km rows) (distance_km r),
       dist_from_wh = text_float pf num (map dist_from_wh rows) (dist_from_wh r),
       last_order_date = last_order_date r \<rparr>"

text \<open>The cell that \<^verbatim>\<open>read_csv\<close> makes of the text \<open>t\<close> of a field of the column \<open>col\<close>.\<close>

definition parse_cell :: "csvnum \<Rightarrow> string list \<Rightarrow> string \<Rightarrow> cell" where
  "parse_cell num col t =
     (if t \<in> set na_values then Missing
      else if numeric_column num col then (case num t of Some x \<Rightarrow> Num x | None \<Rightarrow> Str t)
      else if bool_column col then Bool (t \<in> set true_values)
      else Str t)"

definition parsed_row ::
  "csvnum \<Rightarrow> (string, 'g, 'k) row list \<Rightarrow> (string, 'g, 'k) row \<Rightarrow> (cell, 'g, 'k) row" where
  "parsed_row num rows r =
     \<lparr> customer_id = customer_id r,
       latitude = parse_cell num (map latitude rows) (latitude r),
       longitude = parse_cell num (map longitude rows) (longitude r),
       wh_lat = parse_cell num (map wh_lat rows) (wh_lat r),
       wh_long = parse_cell num (map wh_long rows) (wh_long r),
       warehouse_name = warehouse_name r,
       k_means = k_means r,
       cx_status = cx_status r,
       partner_gmv = partner_gmv r,
       distance_km = parse_cell num (map distance_km rows) (distance_km r),
       dist_from_wh = parse_cell num (map dist_from_wh rows) (dist_from_wh r),
       last_order_date = last_order_date r \<rparr>"

subsection \<open>Sample uploads\<close>

text \<open>
  After the scenario of the specification, with coordinates that are float64 numbers: a
  customer of warehouse A in cluster 0, transacting, and a second one that is not; with
  them a customer of another warehouse and a customer of a second cluster whose latitude
  is missing and whose status is neither of the two.
\<close>

definition sample_row :: "(real option, real option, int) row" where
  "sample_row =
     \<lparr> customer_id = Some ''c1'', latitude = Some 2, longitude = Some 3,
       wh_lat = Some 1, wh_long = Some 1, warehouse_name = Some ''A'', k_means = Some 0,
       cx_status = Some ''Transacting'', partner_gmv = Some 100, distance_km = Some 5,
       dist_from_wh = Some 5, last_order_date = Some ''2024-01-01'' \<rparr>"

definition sample_table :: "(real option, real option, int) frame" where
  "sample_table =
     [(0, sample_row),
      (1, sample_row \<lparr> warehouse_name := Some ''B'', latitude := Some 7 \<rparr>),
      (2, sample_row \<lparr> customer_id := Some ''c2'', latitude := Some 4,
                       cx_status := Some ''Non-Transacting'', partner_gmv := Some 50 \<rparr>),
      (3, sample_row \<lparr> customer_id := Some ''c3'', k_means := Some 1, latitude := None,
                       cx_status := Some ''Dormant'' \<rparr>)]"

text \<open>
  The first row of the sample as text of the file, and fragments of the two readings of
  text as a number that are enough for the examples.
\<close>

definition text_row :: "(string, real option, int) row" where
  "text_row =
     \<lparr> customer_id = Some ''c1'', latitude = ''2'', longitude = ''3'',
       wh_lat = ''1'', wh_long = ''1'', warehouse_name = Some ''A'', k_means = Some 0,
       cx_status = Some ''Transacting'', partner_gmv = Some 100, distance_km = ''5'',
       dist_from_wh = ''5'', last_order_date = Some ''2024-01-01'' \<rparr>"

definition sample_number :: csvnum where
  "sample_number s =
     (if s = ''1'' then Some 1 else if s = ''2'' then Some 2 else if s = ''3'' then Some 3
      else if s = ''5'' then Some 5 else None)"

definition sample_pyfloat :: pyfloat where
  "sample_pyfloat s = (if s = ''nan'' then Some None else map_option Some (sample_number s))"

text \<open>A row as \<^verbatim>\<open>read_csv\<close> delivers it, with text in \<open>partner_gmv\<close> and in a column of text.\<close>

definition raw_row :: "(cell, cell, int) row" where
  "raw_row =
     \<lparr> customer_id = Some ''c1'', latitude = Num 2, longitude = Num 3,
       wh_lat = Num 1, wh_long = Num 1, warehouse_name = Some ''A'', k_means = Some 0,
       cx_status = Some ''Transacting'', partner_gmv = Str ''abc'', distance_km = Missing,
       dist_from_wh = Str ''5'', last_order_date = Some ''2024-01-01'' \<rparr>"

text \<open>
  A table whose first row has an empty \<open>warehouse_name\<close> cell, and an upload of one
  such row.
\<close>

definition unnamed_table :: "(real option, real option, int) frame" where
  "unnamed_table = [(0, sample_row \<lparr> warehouse_name := None \<rparr>), (1, sample_row)]"

definition unnamed_upload :: "(string, real option, int) row list" where
  "unnamed_upload = [text_row \<lparr> warehouse_name := None \<rparr>]"

text \<open>An upload whose only row has an empty \<open>customer_id\<close> cell.\<close>

definition orphan_table :: "(real option, real option, int) frame" where
  "orphan_table = [(0, sample_row \<lparr> customer_id := None \<rparr>)]"

text \<open>A filtered table whose two rows disagree on the coordinate of the warehouse.\<close>

definition moved_table :: "(real option, real option, int) frame" where
  "moved_table =
     [(0, sample_row),
      (1, sample_row \<lparr> wh_lat := Some 9, wh_long := None, k_means := Some 2, latitude := Some 6 \<rparr>)]"


section \<open>Facts about the operations\<close>

subsection \<open>Unique values and group labels\<close>

lemma set_unique_from: "set (unique_from seen xs) = set xs - set seen"
  by (induction xs arbitrary: seen) auto

lemma distinct_unique_from: "distinct (unique_from seen xs)"
  by (induction xs arbitrary: seen) (auto simp: set_unique_from)

lemma set_unique: "set (unique xs) = set xs"
  by (simp add: unique_def set_unique_from)


lemma sorted_unique_from:
  "sorted_wrt (\<lambda>a b. first_position xs a < first_position xs b) (unique_from seen xs)"
proof (induction xs arbitrary: seen)
  case Nil
  then show ?case by simp
next
  case (Cons x xs)
  have shift: "sorted_wrt (\<lambda>a b. first_position (x # xs) a < first_position (x # xs) b)
                 (unique_from s xs)" if "x \<in> set s" for s
  proof (rule sorted_wrt_mono_rel [OF _ Cons.IH [of s]])
    fix a b
    assume "a \<in> set (unique_from s xs)" "b \<in> set (unique_from s xs)"
      and "first_position xs a < first_position xs b"
    with that show "first_position (x # xs) a < first_position (x # xs) b"
      by (auto simp: first_position_def set_unique_from)
  qed
  show ?case
  proof (cases "x \<in> set seen")
    case True
    then show ?thesis using shift [of seen] by simp
  next
    case False
    have "first_position (x # xs) x < first_position (x # xs) b"
      if "b \<in> set (unique_from (x # seen) xs)" for b
      using that by (auto simp: first_position_def set_unique_from)
    with False show ?thesis using shift [of "x # seen"] by simp
  qed
qed

lemma dropna_Nil [simp]: "dropna [] = []"
  by (simp add: dropna_def map_filter_simps)

lemma dropna_Cons [simp]:
  "dropna (x # xs) = (case x of None \<Rightarrow> dropna xs | Some y \<Rightarrow> y # dropna xs)"
  by (simp add: dropna_def map_filter_simps split: option.splits)




lemma sorted_group_keys: "sorted (group_keys wh)"
  by (simp add: group_keys_def)

subsection \<open>Rounding to float64\<close>


lemma rne_of_int [simp]: "rne (of_int k) = k"
  by (simp add: rne_def)





lemma ulp64_between:
  assumes "2 ^ k \<le> \<bar>x\<bar>" and "\<bar>x\<bar> < 2 ^ Suc k" and "k \<le> 52"
  shows "ulp64 x = 1 / 2 ^ (52 - k)"
proof -
  have pos: "0 < \<bar>x\<bar>"
    using assms(1) by (smt (verit) zero_less_power)
  have "2 powr of_int (int k) \<le> \<bar>x\<bar>" "\<bar>x\<bar> < 2 powr (of_int (int k) + 1)"
    using assms(1,2) by (simp_all add: powr_realpow powr_add)
  then have "\<lfloor>log 2 \<bar>x\<bar>\<rfloor> = int k"
    using floor_log_eq_powr_iff [OF pos, of 2 "int k"] by simp
  then have "ulp64 x = 2 powr (- real (52 - k))"
    using assms(3) by (simp add: ulp64_def)
  also have "\<dots> = 1 / 2 ^ (52 - k)"
    by (simp add: powr_minus_divide powr_realpow)
  finally show ?thesis .
qed

lemma fl64_between:
  assumes "2 ^ k \<le> \<bar>x\<bar>" and "\<bar>x\<bar> < 2 ^ Suc k" and "k \<le> 52"
  shows "fl64 x = of_int (rne (x * 2 ^ (52 - k))) / 2 ^ (52 - k)"
proof -
  have "x \<noteq> 0" using assms(1) by (smt (verit) zero_less_power abs_zero)
  then show ?thesis
    by (simp add: fl64_def ulp64_between [OF assms])
qed

lemma fl64_of_int:
  assumes "\<bar>n\<bar> < 2 ^ 53"
  shows "fl64 (of_int n) = of_int n"
proof (cases "n = 0")
  case True
  then show ?thesis by (simp add: fl64_def)
next
  case False
  define x :: real where "x = of_int n"
  have xpos: "0 < \<bar>x\<bar>" and x1: "1 \<le> \<bar>x\<bar>" and x53: "\<bar>x\<bar> < 2 ^ 53"
    using False assms unfolding x_def
    by (simp_all flip: of_int_abs add: of_int_less_iff [of "\<bar>n\<bar>" "2 ^ 53", simplified] )
  define e where "e = \<lfloor>log 2 \<bar>x\<bar>\<rfloor>"
  have e: "2 powr of_int e \<le> \<bar>x\<bar>" "\<bar>x\<bar> < 2 powr (of_int e + 1)"
    using floor_log_eq_powr_iff [OF xpos, of 2 e] by (simp_all add: e_def)
  have "0 \<le> log 2 \<bar>x\<bar>" using x1 by simp
  then have e0: "0 \<le> e" by (simp add: e_def)
  have lt: "(2::real) powr of_int e < 2 powr 53"
    using e(1) x53 by simp
  have "of_int e < (53::real)"
    by (rule powr_less_cancel [OF lt]) simp
  then have e52: "e \<le> 52" by linarith
  define k where "k = nat e"
  have k: "e = int k" "k \<le> 52" using e0 e52 by (simp_all add: k_def)
  have "2 ^ k \<le> \<bar>x\<bar>" "\<bar>x\<bar> < 2 ^ Suc k"
    using e unfolding k(1) by (simp_all add: powr_realpow powr_add)
  from fl64_between [OF this k(2)]
  have "fl64 x = of_int (rne (of_int (n * 2 ^ (52 - k)))) / 2 ^ (52 - k)"
    by (simp add: x_def)
  then show ?thesis
    unfolding rne_of_int x_def by simp
qed

lemma fl64_numeral [simp]:
  assumes "(numeral n :: real) < 2 ^ 53"
  shows "fl64 (numeral n) = numeral n"
proof -
  have "real_of_int (numeral n) < real_of_int (2 ^ 53)"
    using assms by simp
  then have "(numeral n :: int) < 2 ^ 53"
    by (simp only: of_int_less_iff)
  then have "\<bar>numeral n :: int\<bar> < 2 ^ 53" by simp
  from fl64_of_int [OF this] show ?thesis by simp
qed

lemma fl64_0 [simp]: "fl64 0 = 0"
  by (simp add: fl64_def)

lemma fl64_1 [simp]: "fl64 1 = 1"
  using fl64_of_int [of 1] by simp

lemma fl_sum_Nil [simp]: "fl_sum [] = 0"
  by (simp add: fl_sum_def)

lemma fl_sum_snoc [simp]: "fl_sum (xs @ [x]) = fl64 (fl_sum xs + x)"
  by (simp add: fl_sum_def)







lemma fl64_fixed_point_far:
  assumes "fl64 y = y"
  shows "1 / 10 ^ 9 < \<bar>y - (100000000 + 1 / (3 * 2 ^ 26))\<bar>"
proof (rule ccontr)
  assume "\<not> 1 / 10 ^ 9 < \<bar>y - (100000000 + 1 / (3 * 2 ^ 26))\<bar>"
  then have near: "\<bar>y - (100000000 + 1 / (3 * 2 ^ 26))\<bar> \<le> 1 / 10 ^ 9" by simp
  then have "y - (100000000 + 1 / (3 * 2 ^ 26)) \<le> 1 / 10 ^ 9"
    and "- (y - (100000000 + 1 / (3 * 2 ^ 26))) \<le> 1 / 10 ^ 9"
    unfolding abs_le_iff by blast+
  then have lo: "100000000 < y" and hi: "y < 100000000 + 1 / 2 ^ 26"
    by simp_all
  have "2 ^ 26 \<le> \<bar>y\<bar>" "\<bar>y\<bar> < 2 ^ Suc 26"
    using lo hi by simp_all
  from fl64_between [OF this] assms
  have "y * 2 ^ 26 = of_int (rne (y * 2 ^ 26))" by (simp add: field_simps)
  moreover have "100000000 * 2 ^ 26 < y * 2 ^ 26" "y * 2 ^ 26 < 100000000 * 2 ^ 26 + 1"
    using lo hi by (simp_all add: field_simps)
  ultimately have "real_of_int (100000000 * 2 ^ 26) < of_int (rne (y * 2 ^ 26))"
    "of_int (rne (y * 2 ^ 26)) < real_of_int (100000000 * 2 ^ 26 + 1)"
    by simp_all
  then have "100000000 * 2 ^ 26 < rne (y * 2 ^ 26)" "rne (y * 2 ^ 26) < 100000000 * 2 ^ 26 + 1"
    by (simp_all only: of_int_less_iff)
  then show False by linarith
qed


subsection \<open>Groups and aggregates in terms of rows\<close>

lemma series_eq_Some [simp]: "series_eq s (Some v) = (s = Some v)"
  by (cases s) (auto simp: series_eq_def)

lemma series_eq_None [simp]: "series_eq s None = False"
  by (cases s) (auto simp: series_eq_def)

lemma snd_group: "map snd (filter (\<lambda>(i, r). k_means r = Some k) wh) = cluster_rows wh k"
  by (induction wh) (auto simp: cluster_rows_def)


lemma cluster_agg_rows:
  "cluster_agg wh = map (\<lambda>k. agg_of_rows k (cluster_rows wh k)) (group_keys wh)"
  by (simp add: cluster_agg_def groupby_k_means_def agg_of_rows_def comp_def snd_group [symmetric])

lemma loc_cx_status_group:
  "distinct (map fst wh) \<Longrightarrow> set g \<subseteq> set wh \<Longrightarrow>
   loc_cx_status wh (map fst g) = Inr (map (\<lambda>(i, r). (i, cx_status r)) g)"
  by (induction g) auto

lemma loc_cx_status_total:
  "set idx \<subseteq> fst ` set wh \<Longrightarrow> \<exists>ss. loc_cx_status wh idx = Inr ss \<and> map fst ss = idx"
proof (induction idx)
  case Nil
  then show ?case by simp
next
  case (Cons i idx)
  then obtain ss where ss: "loc_cx_status wh idx = Inr ss" "map fst ss = idx" by auto
  from Cons.prems have "i \<in> fst ` set wh" by simp
  then obtain r where "map_of wh i = Some r"
    by (metis domD dom_map_of_conv_image_fst)
  with ss show ?case by simp
qed

lemma bool_index_group:
  "map snd (bool_index (column col g) (map (\<lambda>(i, r). (i, cx_status r = Some st)) g))
   = map col (filter (\<lambda>r. cx_status r = Some st) (map snd g))"
  by (induction g) (auto simp: bool_index_def column_def)

lemma status_mean_group:
  assumes "distinct (map fst wh)" "set g \<subseteq> set wh"
  shows "status_mean wh st (column col g)
         = Inr (agg_mean (map col (filter (\<lambda>r. cx_status r = Some st) (map snd g))))"
proof -
  have idx: "map fst (column col g) = map fst g"
    by (induction g) (auto simp: column_def)
  have msk: "map (\<lambda>(i, s). (i, series_eq s (Some st))) (map (\<lambda>(i, r). (i, cx_status r)) g)
             = map (\<lambda>(i, r). (i, cx_status r = Some st)) g"
    by (induction g) auto
  have "status_mean wh st (column col g)
        = Inr (agg_mean (map snd (bool_index (column col g)
                 (map (\<lambda>(i, s). (i, series_eq s (Some st))) (map (\<lambda>(i, r). (i, cx_status r)) g)))))"
    unfolding status_mean_def idx loc_cx_status_group [OF assms] by simp
  then show ?thesis
    unfolding msk bool_index_group .
qed

lemma status_count_group:
  "status_count st (column cx_status g) = length (filter (\<lambda>r. cx_status r = Some st) (map snd g))"
  by (induction g) (auto simp: status_count_def column_def)

lemma summary_of_group_rows:
  assumes "distinct (map fst wh)" "set g \<subseteq> set wh"
  shows "summary_of_group wh k g = Inr (summary_of_rows k (map snd g))"
  by (simp add: summary_of_group_def status_mean_group [OF assms] status_count_group
      summary_of_rows_def with_status_def)

lemma summary_rows_rows:
  assumes "distinct (map fst wh)" "\<forall>(k, g) \<in> set gs. set g \<subseteq> set wh"
  shows "summary_rows wh gs = Inr (map (\<lambda>(k, g). summary_of_rows k (map snd g)) gs)"
  using assms(2)
  by (induction gs) (auto simp: summary_of_group_rows [OF assms(1)])

lemma cluster_summary_rows:
  assumes "distinct (map fst wh)"
  shows "cluster_summary wh
         = Inr (map (\<lambda>k. summary_of_rows k (cluster_rows wh k)) (group_keys wh))"
proof -
  have "\<forall>(k, g) \<in> set (groupby_k_means wh). set g \<subseteq> set wh"
    by (auto simp: groupby_k_means_def)
  from summary_rows_rows [OF assms this] show ?thesis
    by (simp add: cluster_summary_def groupby_k_means_def snd_group comp_def)
qed


lemma cluster_data_rows:
  "cluster_data wh =
     map (\<lambda>k. cluster_agg.extend (agg_of_rows k (cluster_rows wh k))
            \<lparr> cd_transacting_count = count_list (map cx_status (cluster_rows wh k)) (Some ''Transacting''),
              cd_non_transacting_count = count_list (map cx_status (cluster_rows wh k)) (Some ''Non-Transacting'') \<rparr>)
         (group_keys wh)"
  by (simp add: cluster_data_def cluster_agg_rows comp_def agg_of_rows_def)

lemmas cluster_row_sel =
  cluster_agg.defs cluster_row.defs

lemmas eval_defs =
  sample_table_def sample_row_def wh_data_def series_eq_def cluster_data_def cluster_agg_def
  groupby_k_means_def group_keys_def unique_def agg_mean_def agg_sum_def agg_count_def
  fl_sum_def cluster_row_sel Let_def

subsection \<open>Ingestion in terms of rows\<close>

lemma to_float_char:
  "to_float pf c = (if non_numeric pf c then Inl ValueError else Inr (float_value pf c))"
  by (cases c) (auto simp: non_numeric_def float_value_def split: option.splits)

lemma astype_float_char:
  "astype_float pf cs =
     (if \<exists>c \<in> set cs. non_numeric pf c then Inl ValueError else Inr (map (float_value pf) cs))"
  by (induction cs) (auto simp: to_float_char)

lemma assign_columns_rows:
  "assign_columns df (map (f1 \<circ> snd) df) (map (f2 \<circ> snd) df) (map (f3 \<circ> snd) df)
     (map (f4 \<circ> snd) df) (map (f5 \<circ> snd) df) (map (f6 \<circ> snd) df)
   = map (\<lambda>(i, r). (i, \<lparr> customer_id = customer_id r, latitude = f1 r, longitude = f2 r,
        wh_lat = f3 r, wh_long = f4 r, warehouse_name = warehouse_name r, k_means = k_means r,
        cx_status = cx_status r, partner_gmv = partner_gmv r, distance_km = f5 r,
        dist_from_wh = f6 r, last_order_date = last_order_date r \<rparr>)) df"
proof (rule nth_equalityI)
  show "length (assign_columns df (map (f1 \<circ> snd) df) (map (f2 \<circ> snd) df) (map (f3 \<circ> snd) df)
     (map (f4 \<circ> snd) df) (map (f5 \<circ> snd) df) (map (f6 \<circ> snd) df)) = length (map (\<lambda>(i, r). (i, \<lparr> customer_id = customer_id r, latitude = f1 r, longitude = f2 r,
        wh_lat = f3 r, wh_long = f4 r, warehouse_name = warehouse_name r, k_means = k_means r,
        cx_status = cx_status r, partner_gmv = partner_gmv r, distance_km = f5 r,
        dist_from_wh = f6 r, last_order_date = last_order_date r \<rparr>)) df)"
    by (simp add: assign_columns_def)
next
  fix j
  assume "j < length (assign_columns df (map (f1 \<circ> snd) df) (map (f2 \<circ> snd) df) (map (f3 \<circ> snd) df)
     (map (f4 \<circ> snd) df) (map (f5 \<circ> snd) df) (map (f6 \<circ> snd) df))"
  then have j: "j < length df" by (simp add: assign_columns_def)
  then show "assign_columns df (map (f1 \<circ> snd) df) (map (f2 \<circ> snd) df) (map (f3 \<circ> snd) df)
     (map (f4 \<circ> snd) df) (map (f5 \<circ> snd) df) (map (f6 \<circ> snd) df) ! j = map (\<lambda>(i, r). (i, \<lparr> customer_id = customer_id r, latitude = f1 r, longitude = f2 r,
        wh_lat = f3 r, wh_long = f4 r, warehouse_name = warehouse_name r, k_means = k_means r,
        cx_status = cx_status r, partner_gmv = partner_gmv r, distance_km = f5 r,
        dist_from_wh = f6 r, last_order_date = last_order_date r \<rparr>)) df ! j"
    by (simp add: assign_columns_def case_prod_beta)
qed


lemma bad_cell_columns:
  "(\<exists>(i, r) \<in> set df. \<exists>c \<in> set (float_columns r). non_numeric pf c) \<longleftrightarrow>
     (\<exists>c \<in> set (map (latitude \<circ> snd) df). non_numeric pf c) \<or>
     (\<exists>c \<in> set (map (longitude \<circ> snd) df). non_numeric pf c) \<or>
     (\<exists>c \<in> set (map (wh_lat \<circ> snd) df). non_numeric pf c) \<or>
     (\<exists>c \<in> set (map (wh_long \<circ> snd) df). non_numeric pf c) \<or>
     (\<exists>c \<in> set (map (distance_km \<circ> snd) df). non_numeric pf c) \<or>
     (\<exists>c \<in> set (map (dist_from_wh \<circ> snd) df). non_numeric pf c)"
  unfolding float_columns_def by (simp add: case_prod_beta) blast

lemma ingest_columns:
  "ingest pf df =
     (if (\<exists>c \<in> set (map (latitude \<circ> snd) df). non_numeric pf c) \<or>
         (\<exists>c \<in> set (map (longitude \<circ> snd) df). non_numeric pf c) \<or>
         (\<exists>c \<in> set (map (wh_lat \<circ> snd) df). non_numeric pf c) \<or>
         (\<exists>c \<in> set (map (wh_long \<circ> snd) df). non_numeric pf c) \<or>
         (\<exists>c \<in> set (map (distance_km \<circ> snd) df). non_numeric pf c) \<or>
         (\<exists>c \<in> set (map (dist_from_wh \<circ> snd) df). non_numeric pf c)
      then Inl ValueError
      else Inr (assign_columns df
                 (map ((float_value pf \<circ> latitude) \<circ> snd) df)
                 (map ((float_value pf \<circ> longitude) \<circ> snd) df)
                 (map ((float_value pf \<circ> wh_lat) \<circ> snd) df)
                 (map ((float_value pf \<circ> wh_long) \<circ> snd) df)
                 (map ((float_value pf \<circ> distance_km) \<circ> snd) df)
                 (map ((float_value pf \<circ> dist_from_wh) \<circ> snd) df)))"
  unfolding ingest_def astype_float_char by (simp add: comp_assoc)

lemma ingest_rows:
  "ingest pf df =
     (if \<exists>(i, r) \<in> set df. \<exists>c \<in> set (float_columns r). non_numeric pf c
      then Inl ValueError
      else Inr (map (\<lambda>(i, r). (i, coerced_row pf r)) df))"
  unfolding bad_cell_columns ingest_columns assign_columns_rows
  by (simp add: coerced_row_def)

subsection \<open>Reading the file in terms of rows\<close>

lemma parse_column_cells: "parse_column num col = map (parse_cell num col) col"
  by (simp add: parse_column_def parse_cell_def)

lemma read_csv_rows:
  "read_csv num rows = map (\<lambda>(j, r). (j, parsed_row num rows r)) (zip [0..<length rows] rows)"
proof -
  let ?df = "zip [0..<length rows] rows"
  have rows: "map snd ?df = rows" by simp
  have col: "parse_column num (map f rows) = map ((parse_cell num (map f rows) \<circ> f) \<circ> snd) ?df"
    for f :: "(string, 'a, 'b) row \<Rightarrow> string"
  proof -
    have "map ((parse_cell num (map f rows) \<circ> f) \<circ> snd) ?df
          = map (parse_cell num (map f rows) \<circ> f) (map snd ?df)"
      by (simp only: map_map)
    also have "\<dots> = map (parse_cell num (map f rows)) (map f rows)"
      by (simp only: rows map_map)
    finally show ?thesis by (simp only: parse_column_cells)
  qed
  show ?thesis
    unfolding read_csv_def col assign_columns_rows
    by (simp add: parsed_row_def)
qed

lemma non_numeric_parse_cell:
  "non_numeric pf (parse_cell num col t) \<longleftrightarrow>
     t \<notin> set na_values \<and> \<not> numeric_column num col \<and> \<not> bool_column col \<and> pf t = None"
  if "t \<in> set col"
  using that by (auto simp: non_numeric_def parse_cell_def numeric_column_def split: option.splits)

lemma float_value_parse_cell:
  "t \<in> set col \<Longrightarrow> float_value pf (parse_cell num col t) = text_float pf num col t"
  by (auto simp: float_value_def parse_cell_def text_float_def numeric_column_def split: option.splits)

lemma rejected_column_cells:
  "rejected_column pf num (map f rows)
     \<longleftrightarrow> (\<exists>r \<in> set rows. non_numeric pf (parse_cell num (map f rows) (f r)))"
  by (auto simp: rejected_column_def non_numeric_parse_cell)

lemma coerced_parsed_row:
  "r \<in> set rows \<Longrightarrow> coerced_row pf (parsed_row num rows r) = converted_row pf num rows r"
  by (simp add: coerced_row_def parsed_row_def converted_row_def float_value_parse_cell)

lemma ingest_read_csv:
  "ingest pf (read_csv num rows) =
     (if \<exists>col \<in> set (float_texts rows). rejected_column pf num col
      then Inl ValueError
      else Inr (map (\<lambda>(j, r). (j, converted_row pf num rows r)) (zip [0..<length rows] rows)))"
proof -
  let ?df = "zip [0..<length rows] rows"
  have bad: "(\<exists>(i, r) \<in> set (read_csv num rows). \<exists>c \<in> set (float_columns r). non_numeric pf c)
             \<longleftrightarrow> (\<exists>col \<in> set (float_texts rows). rejected_column pf num col)"
  proof -
    have "(\<exists>(i, r) \<in> set (read_csv num rows). \<exists>c \<in> set (float_columns r). non_numeric pf c)
          \<longleftrightarrow> (\<exists>r \<in> set rows. \<exists>c \<in> set (float_columns (parsed_row num rows r)). non_numeric pf c)"
      unfolding read_csv_rows by (force simp: set_zip in_set_conv_nth)
    also have "\<dots> \<longleftrightarrow> (\<exists>col \<in> set (float_texts rows). rejected_column pf num col)"
      unfolding float_texts_def float_columns_def
      by (simp add: rejected_column_cells parsed_row_def) blast
    finally show ?thesis .
  qed
  have ok: "map (\<lambda>(i, r). (i, coerced_row pf r)) (read_csv num rows)
            = map (\<lambda>(j, r). (j, converted_row pf num rows r)) ?df"
    unfolding read_csv_rows
    by (auto simp: coerced_parsed_row dest: set_zip_rightD)
  show ?thesis
    unfolding ingest_rows bad ok ..
qed

subsection \<open>The selector\<close>

lemma wh_data_nonempty:
  "Some w \<in> set (warehouses df) \<Longrightarrow> wh_data df (Some w) \<noteq> []"
  by (force simp: warehouses_def set_unique wh_data_def filter_empty_conv)

lemma selectbox_in_options:
  "pick < length options \<Longrightarrow> selectbox options pick \<in> set options"
  by (simp add: selectbox_def)

subsection \<open>Counting by status, and the index labels of the tables\<close>

lemma count_list_map:
  "count_list (map f xs) v = length (filter (\<lambda>x. f x = v) xs)"
  by (induction xs) auto

lemma two_filters_le:
  assumes "\<And>x. \<not> (P x \<and> Q x)"
  shows "length (filter P xs) + length (filter Q xs) \<le> length xs \<and>
         (length (filter P xs) + length (filter Q xs) = length xs \<longleftrightarrow> (\<forall>x \<in> set xs. P x \<or> Q x))"
proof (induction xs)
  case Nil
  then show ?case by simp
next
  case (Cons x xs)
  then show ?case using assms [of x] by auto
qed

lemma status_rows_of_cluster:
  "length (filter (\<lambda>(i, r). k_means r = Some k)
             (filter (\<lambda>(i, r). series_eq (cx_status r) (Some st)) wh))
   = length (with_status st (cluster_rows wh k))"
  by (induction wh) (auto simp: with_status_def cluster_rows_def)

lemma with_status_empty_mean:
  "with_status st rs = [] \<Longrightarrow> agg_mean (map col (with_status st rs)) = None"
  by (simp add: agg_mean_def)

lemma index_read_csv: "map fst (read_csv num rows) = [0..<length rows]"
  by (simp add: read_csv_rows comp_def case_prod_unfold)

lemma distinct_index_read_csv: "distinct (map fst (read_csv num rows))"
  by (simp add: index_read_csv)

lemma index_ingest: "ingest pf df = Inr df' \<Longrightarrow> map fst df' = map fst df"
  unfolding ingest_rows by (auto split: if_splits)

lemma distinct_index_wh_data:
  "distinct (map fst df) \<Longrightarrow> distinct (map fst (wh_data df sel))"
  by (simp add: wh_data_def distinct_map_filter)

lemma agg_count_present:
  "agg_count (map f rs) = length (filter (\<lambda>r. f r \<noteq> None) rs)"
  by (induction rs) (auto simp: agg_count_def split: option.splits)

lemma cluster_data_row:
  assumes "c \<in> set (cluster_data wh)"
  shows "cd_k_means c \<in> set (group_keys wh)"
    and "cd_customer_id c = agg_count (map customer_id (cluster_rows wh (cd_k_means c)))"
    and "cd_cx_status c = map cx_status (cluster_rows wh (cd_k_means c))"
    and "cd_transacting_count c
         = count_list (map cx_status (cluster_rows wh (cd_k_means c))) (Some ''Transacting'')"
    and "cd_non_transacting_count c
         = count_list (map cx_status (cluster_rows wh (cd_k_means c))) (Some ''Non-Transacting'')"
    and "cd_latitude c = agg_mean (map latitude (cluster_rows wh (cd_k_means c)))"
    and "cd_longitude c = agg_mean (map longitude (cluster_rows wh (cd_k_means c)))"
  using assms by (auto simp: cluster_data_rows agg_of_rows_def cluster_row_sel)

lemma summary_of_rows_no_transacting:
  "with_status ''Transacting'' rs = [] \<Longrightarrow>
   transacting_count (summary_of_rows k rs) = 0 \<and>
   avg_pgmv_transacting (summary_of_rows k rs) = None \<and>
   avg_dist_transacting (summary_of_rows k rs) = None"
  by (simp add: summary_of_rows_def agg_mean_def)

lemma summary_of_rows_no_non_transacting:
  "with_status ''Non-Transacting'' rs = [] \<Longrightarrow>
   non_transacting_count (summary_of_rows k rs) = 0 \<and>
   avg_pgmv_nontransacting (summary_of_rows k rs) = None \<and>
   avg_dist_nontransacting (summary_of_rows k rs) = None"
  by (simp add: summary_of_rows_def agg_mean_def)

subsection \<open>The lines of the figure\<close>

lemma Line_in_make_figure:
  "Line lats lons \<in> set (traces (make_figure whlat whlong cd wh)) \<longleftrightarrow>
     (\<exists>c \<in> set cd. lats = [whlat, cd_latitude c] \<and> lons = [whlong, cd_longitude c])"
  by (auto simp: make_figure_def)

section \<open>Properties\<close>




text \<open>
  C2. For every filtered table and every cluster in it, the \<open>transacting_count\<close> of the
  summary table is the number of rows of the cluster among the rows whose status is exactly
  "Transacting" (the table \<open>transacting\<close> of line 120), and \<open>non_transacting_count\<close> is
  the number among those whose status is exactly "Non-Transacting" (line 121). The summary
  table is produced (no lookup fails) and has one row per cluster label. Index labels are
  distinct, as they are in every table that \<open>read_csv\<close> made and the script filtered.
\<close>

theorem summary_counts_roundtrip:
  assumes "distinct (map fst wh)"
  shows "\<exists>tbl. cluster_summary wh = Inr tbl \<and> map cs_k_means tbl = group_keys wh \<and>
           (\<forall>s \<in> set tbl.
              transacting_count s
                = length (filter (\<lambda>(i, r). k_means r = Some (cs_k_means s)) (transacting wh)) \<and>
              non_transacting_count s
                = length (filter (\<lambda>(i, r). k_means r = Some (cs_k_means s)) (non_transacting wh)))"
proof -
  let ?tbl = "map (\<lambda>k. summary_of_rows k (cluster_rows wh k)) (group_keys wh)"
  have "cluster_summary wh = Inr ?tbl"
    by (rule cluster_summary_rows [OF assms])
  moreover have "map cs_k_means ?tbl = group_keys wh"
    by (simp add: comp_def summary_of_rows_def)
  moreover have "transacting_count s
                = length (filter (\<lambda>(i, r). k_means r = Some (cs_k_means s)) (transacting wh)) \<and>
              non_transacting_count s
                = length (filter (\<lambda>(i, r). k_means r = Some (cs_k_means s)) (non_transacting wh))"
    if "s \<in> set ?tbl" for s
  proof -
    from that obtain k where s: "s = summary_of_rows k (cluster_rows wh k)" by auto
    have sel: "cs_k_means s = k"
      "transacting_count s = length (with_status ''Transacting'' (cluster_rows wh k))"
      "non_transacting_count s = length (with_status ''Non-Transacting'' (cluster_rows wh k))"
      by (simp_all add: s summary_of_rows_def)
    show ?thesis
      unfolding sel transacting_def non_transacting_def status_rows_of_cluster by simp
  qed
  ultimately show ?thesis by blast
qed

theorem summary_counts_roundtrip_witness:
  "distinct (map fst (wh_data sample_table (Some ''A''))) \<and>
   cluster_summary (wh_data sample_table (Some ''A''))
     = Inr [\<lparr> cs_k_means = 0, transacting_count = 1, non_transacting_count = 1,
               avg_pgmv_transacting = Some 100, avg_pgmv_nontransacting = Some 50,
               avg_dist_transacting = Some 5, avg_dist_nontransacting = Some 5 \<rparr>,
            \<lparr> cs_k_means = 1, transacting_count = 0, non_transacting_count = 0,
               avg_pgmv_transacting = None, avg_pgmv_nontransacting = None,
               avg_dist_transacting = None, avg_dist_nontransacting = None \<rparr>] \<and>
   length (filter (\<lambda>(i, r). k_means r = Some 0) (transacting (wh_data sample_table (Some ''A'')))) = 1 \<and>
   length (filter (\<lambda>(i, r). k_means r = Some 0) (non_transacting (wh_data sample_table (Some ''A'')))) = 1 \<and>
   length (filter (\<lambda>(i, r). k_means r = Some 1) (transacting (wh_data sample_table (Some ''A'')))) = 0"
  using summary_counts_roundtrip [of "wh_data sample_table (Some ''A'')"]
  by (simp add: eval_defs cluster_summary_def summary_of_group_def status_mean_def
      status_count_def column_def bool_index_def transacting_def non_transacting_def)

text \<open>
  C3, as stated: for every cluster of the centroid table, the two status counts together
  are at most the cluster's member count. The member count of the centroid table is the
  column \<^verbatim>\<open>'customer_id': 'count'\<close>, and pandas's count leaves out the rows whose
  \<open>customer_id\<close> is missing: a cluster of one transacting customer with an empty
  \<open>customer_id\<close> cell has the counts 1 and 0 and the member count 0.
\<close>

theorem status_counts_bounded_counterexample:
  "map cd_transacting_count (cluster_data orphan_table) = [1] \<and>
   map cd_non_transacting_count (cluster_data orphan_table) = [0] \<and>
   map cd_customer_id (cluster_data orphan_table) = [0] \<and>
   map (\<lambda>c. cd_transacting_count c + cd_non_transacting_count c \<le> cd_customer_id c)
     (cluster_data orphan_table) = [False]"
  by (simp add: orphan_table_def eval_defs)

text \<open>
  C3, amended: for every cluster of the centroid table, the two status counts together
  are at most the number of rows of the cluster (the length of its status list), with
  equality exactly when the status of every row of the cluster is "Transacting" or
  "Non-Transacting"; a row with any other status is in neither count and still is a row
  of the cluster. The member count column is the number of rows of the cluster whose
  \<open>customer_id\<close> is present, so it is the number of rows when no \<open>customer_id\<close> is missing.
\<close>

theorem status_counts_bounded:
  "\<forall>c \<in> set (cluster_data wh).
     cd_transacting_count c + cd_non_transacting_count c
       \<le> length (cluster_rows wh (cd_k_means c)) \<and>
     (cd_transacting_count c + cd_non_transacting_count c = length (cluster_rows wh (cd_k_means c))
        \<longleftrightarrow> (\<forall>r \<in> set (cluster_rows wh (cd_k_means c)).
               cx_status r = Some ''Transacting'' \<or> cx_status r = Some ''Non-Transacting'')) \<and>
     length (cd_cx_status c) = length (cluster_rows wh (cd_k_means c)) \<and>
     cd_customer_id c
       = length (filter (\<lambda>r. customer_id r \<noteq> None) (cluster_rows wh (cd_k_means c)))"
proof
  fix c
  assume c: "c \<in> set (cluster_data wh)"
  let ?rs = "cluster_rows wh (cd_k_means c)"
  have disj: "\<not> (cx_status r = Some ''Transacting'' \<and> cx_status r = Some ''Non-Transacting'')"
    for r :: "(real option, real option, 'a) row"
    by auto
  have t: "cd_transacting_count c = length (filter (\<lambda>r. cx_status r = Some ''Transacting'') ?rs)"
    and n: "cd_non_transacting_count c
            = length (filter (\<lambda>r. cx_status r = Some ''Non-Transacting'') ?rs)"
    by (simp_all only: cluster_data_row [OF c] count_list_map)
  have "cd_customer_id c = length (filter (\<lambda>r. customer_id r \<noteq> None) ?rs)"
    by (simp only: cluster_data_row(2) [OF c] agg_count_present)
  moreover have "length (cd_cx_status c) = length ?rs"
    by (simp add: cluster_data_row(3) [OF c])
  ultimately show "cd_transacting_count c + cd_non_transacting_count c \<le> length ?rs \<and>
     (cd_transacting_count c + cd_non_transacting_count c = length ?rs
        \<longleftrightarrow> (\<forall>r \<in> set ?rs.
               cx_status r = Some ''Transacting'' \<or> cx_status r = Some ''Non-Transacting'')) \<and>
     length (cd_cx_status c) = length ?rs \<and>
     cd_customer_id c = length (filter (\<lambda>r. customer_id r \<noteq> None) ?rs)"
    unfolding t n
    using two_filters_le [of "\<lambda>r. cx_status r = Some ''Transacting''"
        "\<lambda>r. cx_status r = Some ''Non-Transacting''" ?rs, OF disj]
    by blast
qed

theorem status_counts_bounded_witness:
  "set (map cd_k_means (cluster_data (wh_data sample_table (Some ''A'')))) = {0, 1} \<and>
   map cd_transacting_count (cluster_data (wh_data sample_table (Some ''A''))) = [1, 0] \<and>
   map cd_non_transacting_count (cluster_data (wh_data sample_table (Some ''A''))) = [1, 0] \<and>
   map cd_customer_id (cluster_data (wh_data sample_table (Some ''A''))) = [2, 1] \<and>
   length (cluster_rows (wh_data sample_table (Some ''A'')) 0) = 2 \<and>
   length (cluster_rows (wh_data sample_table (Some ''A'')) 1) = 1 \<and>
   map cx_status (cluster_rows (wh_data sample_table (Some ''A'')) 1) = [Some ''Dormant'']"
  using status_counts_bounded [of "wh_data sample_table (Some ''A'')"]
  by (simp add: eval_defs cluster_rows_def)

text \<open>
  C4. In the summary table, a cluster that has no row of a status (no transacting row, or
  no non-transacting row) has the count 0 for that status, and its mean \<open>partner_gmv\<close>
  and mean \<open>dist_from_wh\<close> for that status are missing (NaN), not zero. The summary table
  is produced; index labels are distinct, as in every table the script filters.
\<close>

theorem empty_status_mean_missing:
  assumes "distinct (map fst wh)"
  shows "\<exists>tbl. cluster_summary wh = Inr tbl \<and>
           (\<forall>s \<in> set tbl.
              (filter (\<lambda>(i, r). k_means r = Some (cs_k_means s)) (transacting wh) = [] \<longrightarrow>
                 transacting_count s = 0 \<and> avg_pgmv_transacting s = None \<and>
                 avg_dist_transacting s = None) \<and>
              (filter (\<lambda>(i, r). k_means r = Some (cs_k_means s)) (non_transacting wh) = [] \<longrightarrow>
                 non_transacting_count s = 0 \<and> avg_pgmv_nontransacting s = None \<and>
                 avg_dist_nontransacting s = None))"
proof -
  let ?tbl = "map (\<lambda>k. summary_of_rows k (cluster_rows wh k)) (group_keys wh)"
  have "cluster_summary wh = Inr ?tbl"
    by (rule cluster_summary_rows [OF assms])
  moreover have "(filter (\<lambda>(i, r). k_means r = Some (cs_k_means s)) (transacting wh) = [] \<longrightarrow>
                 transacting_count s = 0 \<and> avg_pgmv_transacting s = None \<and>
                 avg_dist_transacting s = None) \<and>
              (filter (\<lambda>(i, r). k_means r = Some (cs_k_means s)) (non_transacting wh) = [] \<longrightarrow>
                 non_transacting_count s = 0 \<and> avg_pgmv_nontransacting s = None \<and>
                 avg_dist_nontransacting s = None)"
    if "s \<in> set ?tbl" for s
  proof -
    from that obtain k where s: "s = summary_of_rows k (cluster_rows wh k)" by auto
    have k: "cs_k_means (summary_of_rows k (cluster_rows wh k)) = k"
      by (simp add: summary_of_rows_def)
    have none: "filter (\<lambda>(i, r). k_means r = Some k)
                  (filter (\<lambda>(i, r). series_eq (cx_status r) (Some st)) wh) = []
                \<Longrightarrow> with_status st (cluster_rows wh k) = []" for st
      using status_rows_of_cluster [of k st wh] by simp
    show ?thesis
      unfolding s k transacting_def non_transacting_def
      using summary_of_rows_no_transacting [of "cluster_rows wh k" k]
        summary_of_rows_no_non_transacting [of "cluster_rows wh k" k]
        none [of "''Transacting''"] none [of "''Non-Transacting''"]
      by blast
  qed
  ultimately show ?thesis by blast
qed

theorem empty_status_mean_missing_witness:
  "distinct (map fst (wh_data sample_table (Some ''A''))) \<and>
   cluster_summary (wh_data sample_table (Some ''A''))
     = Inr [\<lparr> cs_k_means = 0, transacting_count = 1, non_transacting_count = 1,
               avg_pgmv_transacting = Some 100, avg_pgmv_nontransacting = Some 50,
               avg_dist_transacting = Some 5, avg_dist_nontransacting = Some 5 \<rparr>,
            \<lparr> cs_k_means = 1, transacting_count = 0, non_transacting_count = 0,
               avg_pgmv_transacting = None, avg_pgmv_nontransacting = None,
               avg_dist_transacting = None, avg_dist_nontransacting = None \<rparr>] \<and>
   filter (\<lambda>(i, r). k_means r = Some 1) (transacting (wh_data sample_table (Some ''A''))) = [] \<and>
   filter (\<lambda>(i, r). k_means r = Some 1) (non_transacting (wh_data sample_table (Some ''A''))) = []"
  using empty_status_mean_missing [of "wh_data sample_table (Some ''A'')"]
  by (simp add: eval_defs cluster_summary_def summary_of_group_def status_mean_def
      status_count_def column_def bool_index_def transacting_def non_transacting_def)

text \<open>
  C5. The options of the warehouse selector are the distinct values of the
  \<open>warehouse_name\<close> column: every value of the column is an option and every option is a
  value of the column, no option appears twice, and the options are in the order in which
  the values first appear in the table.
\<close>

theorem warehouse_options:
  "set (warehouses df) = set (map (warehouse_name \<circ> snd) df) \<and>
   distinct (warehouses df) \<and>
   sorted_wrt (\<lambda>a b. first_position (map (warehouse_name \<circ> snd) df) a
                     < first_position (map (warehouse_name \<circ> snd) df) b) (warehouses df)"
  unfolding warehouses_def unique_def
  by (simp add: set_unique_from distinct_unique_from sorted_unique_from)

theorem warehouse_options_witness:
  "warehouses sample_table = [Some ''A'', Some ''B''] \<and>
   first_position (map (warehouse_name \<circ> snd) sample_table) (Some ''A'') = 0 \<and>
   first_position (map (warehouse_name \<circ> snd) sample_table) (Some ''B'') = 1"
  using warehouse_options [of sample_table]
  by (simp add: warehouses_def unique_def sample_table_def sample_row_def first_position_def)

text \<open>
  C7, as stated: every selection drawn from the selector's options has a non-empty
  filtered table, so the warning branch cannot be reached. This fails for a row whose
  \<open>warehouse_name\<close> cell is empty: the missing value is an option of the selector (here the
  first one, picked by default), it is equal to no cell, the filtered table is empty and
  the page shows the warning; so does the whole script on an upload of one such row.
\<close>

theorem selection_has_rows_counterexample:
  "selectbox (warehouses unnamed_table) 0 \<in> set (warehouses unnamed_table) \<and>
   wh_data unnamed_table (selectbox (warehouses unnamed_table) 0) = [] \<and>
   render (wh_data unnamed_table (selectbox (warehouses unnamed_table) 0)) = Warning_no_data \<and>
   dashboard sample_number sample_pyfloat (Some unnamed_upload) 0 = Warning_no_data"
  by (simp add: unnamed_table_def sample_row_def warehouses_def unique_def selectbox_def
      wh_data_def series_eq_def render_def dashboard_def unnamed_upload_def text_row_def
      ingest_read_csv float_texts_def rejected_column_def numeric_column_def
      sample_number_def converted_row_def)

text \<open>
  C7, amended: the selector offers only values of the \<open>warehouse_name\<close> column; every
  selection that is an actual name has a non-empty filtered table, and the page does not
  show the warning for it. The missing value, which the selector offers when a
  \<open>warehouse_name\<close> cell is empty, selects no row.
\<close>

theorem named_selection_has_rows:
  "(pick < length (warehouses df) \<longrightarrow>
      selectbox (warehouses df) pick \<in> set (map (warehouse_name \<circ> snd) df)) \<and>
   (selectbox (warehouses df) pick = Some w \<longrightarrow>
      wh_data df (Some w) \<noteq> [] \<and> render (wh_data df (Some w)) \<noteq> Warning_no_data) \<and>
   (wh_data df None = [])"
proof (intro conjI impI)
  assume "pick < length (warehouses df)"
  then have "selectbox (warehouses df) pick \<in> set (warehouses df)"
    by (rule selectbox_in_options)
  then show "selectbox (warehouses df) pick \<in> set (map (warehouse_name \<circ> snd) df)"
    by (simp only: warehouses_def set_unique)
next
  assume sel: "selectbox (warehouses df) pick = Some w"
  then have "Some w \<in> set (warehouses df)"
    by (metis nth_mem option.distinct(1) selectbox_def)
  then show ne: "wh_data df (Some w) \<noteq> []"
    by (rule wh_data_nonempty)
  then show "render (wh_data df (Some w)) \<noteq> Warning_no_data"
    by (auto simp: render_def Let_def split: list.splits sum.splits)
next
  show "wh_data df None = []"
    by (simp add: wh_data_def)
qed

theorem named_selection_has_rows_witness:
  "(1::nat) < length (warehouses unnamed_table) \<and>
   selectbox (warehouses unnamed_table) 1 = Some ''A'' \<and>
   wh_data unnamed_table (Some ''A'') = [(1, sample_row)] \<and>
   render (wh_data unnamed_table (Some ''A'')) \<noteq> Warning_no_data"
  using named_selection_has_rows [of 1 unnamed_table "''A''"]
  by (simp add: unnamed_table_def sample_row_def warehouses_def unique_def selectbox_def
      wh_data_def series_eq_def)




text \<open>
  C9. For a non-empty filtered table, the page shows the map, the centre of the map is the
  \<open>wh_lat\<close> and \<open>wh_long\<close> of the first row of the filtered table, and the connecting
  lines are the lines from that same coordinate to the centroid of each cluster, and no
  others. The rows after the first are arbitrary here: whatever their \<open>wh_lat\<close> and
  \<open>wh_long\<close> are, they have no part in the centre or in the origin of a line.
\<close>

theorem warehouse_coordinate_from_first_row:
  assumes "distinct (map fst ((i0, r0) # rest))"
  shows "\<exists>fig cs. render ((i0, r0) # rest) = Shown fig cs \<and>
           mapbox_center fig = (wh_lat r0, wh_long r0) \<and>
           (\<forall>lats lons. Line lats lons \<in> set (traces fig) \<longleftrightarrow>
              (\<exists>c \<in> set (cluster_data ((i0, r0) # rest)).
                 lats = [wh_lat r0, cd_latitude c] \<and> lons = [wh_long r0, cd_longitude c]))"
proof -
  let ?wh = "(i0, r0) # rest"
  let ?fig = "make_figure (wh_lat r0) (wh_long r0) (cluster_data ?wh) ?wh"
  obtain cs where cs: "cluster_summary ?wh = Inr cs"
    using cluster_summary_rows [OF assms] by blast
  then have "render ?wh = Shown ?fig cs"
    by (simp add: render_def)
  moreover have "mapbox_center ?fig = (wh_lat r0, wh_long r0)"
    by (simp add: make_figure_def)
  ultimately show ?thesis
    using Line_in_make_figure [of _ _ "wh_lat r0" "wh_long r0" "cluster_data ?wh" ?wh] by blast
qed

theorem warehouse_coordinate_from_first_row_witness:
  "distinct (map fst moved_table) \<and>
   map (wh_lat \<circ> snd) moved_table = [Some 1, Some 9] \<and>
   map (wh_long \<circ> snd) moved_table = [Some 1, None] \<and>
   render moved_table
     = Shown (make_figure (Some 1) (Some 1) (cluster_data moved_table) moved_table)
         [\<lparr> cs_k_means = 0, transacting_count = 1, non_transacting_count = 0,
             avg_pgmv_transacting = Some 100, avg_pgmv_nontransacting = None,
             avg_dist_transacting = Some 5, avg_dist_nontransacting = None \<rparr>,
          \<lparr> cs_k_means = 2, transacting_count = 1, non_transacting_count = 0,
             avg_pgmv_transacting = Some 100, avg_pgmv_nontransacting = None,
             avg_dist_transacting = Some 5, avg_dist_nontransacting = None \<rparr>] \<and>
   mapbox_center (make_figure (Some 1) (Some 1) (cluster_data moved_table) moved_table)
     = (Some 1, Some 1) \<and>
   Line [Some 1, Some 6] [Some 1, Some 3]
     \<in> set (traces (make_figure (Some 1) (Some 1) (cluster_data moved_table) moved_table))"
  using warehouse_coordinate_from_first_row [of 0 sample_row
      "[(1, sample_row \<lparr> wh_lat := Some 9, wh_long := None, k_means := Some 2, latitude := Some 6 \<rparr>)]"]
  by (simp add: moved_table_def eval_defs render_def make_figure_def cluster_summary_def
      summary_of_group_def status_mean_def status_count_def column_def bool_index_def)

text \<open>
  C10. The \<open>partner_gmv\<close> column is not converted at ingestion: whatever is written into
  it (\<open>g\<close> is any replacement of its cells, text that is not a number included), ingestion
  fails exactly when it failed before, so never because of \<open>partner_gmv\<close>; and when
  ingestion succeeds the column comes out as it went in. What such a value does to the
  later stages is not part of ingestion.
\<close>

theorem ingest_leaves_partner_gmv:
  "(ingest pf (map (\<lambda>(i, r). (i, r \<lparr> partner_gmv := g r \<rparr>)) df) = Inl e
      \<longleftrightarrow> ingest pf df = Inl e) \<and>
   (ingest pf df = Inr df' \<longrightarrow> map (partner_gmv \<circ> snd) df' = map (partner_gmv \<circ> snd) df)"
proof
  have "(\<exists>(i, r) \<in> set (map (\<lambda>(i, r). (i, r \<lparr> partner_gmv := g r \<rparr>)) df).
           \<exists>c \<in> set (float_columns r). non_numeric pf c)
        \<longleftrightarrow> (\<exists>(i, r) \<in> set df. \<exists>c \<in> set (float_columns r). non_numeric pf c)"
    by (simp add: float_columns_def case_prod_beta)
  then show "ingest pf (map (\<lambda>(i, r). (i, r \<lparr> partner_gmv := g r \<rparr>)) df) = Inl e
      \<longleftrightarrow> ingest pf df = Inl e"
    unfolding ingest_rows by simp
  show "ingest pf df = Inr df' \<longrightarrow> map (partner_gmv \<circ> snd) df' = map (partner_gmv \<circ> snd) df"
    unfolding ingest_rows by (auto simp: coerced_row_def split: if_splits)
qed

theorem ingest_leaves_partner_gmv_witness:
  "partner_gmv raw_row = Str ''abc'' \<and> sample_pyfloat ''abc'' = None \<and>
   ingest sample_pyfloat [(0, raw_row)] = Inr [(0, coerced_row sample_pyfloat raw_row)] \<and>
   map (partner_gmv \<circ> snd) [(0::nat, coerced_row sample_pyfloat raw_row)] = [Str ''abc''] \<and>
   ingest sample_pyfloat [(0, raw_row \<lparr> partner_gmv := Num 100 \<rparr>)] \<noteq> Inl ValueError"
  using ingest_leaves_partner_gmv [of sample_pyfloat "\<lambda>r. Str ''abc''" "[(0, raw_row \<lparr> partner_gmv := Num 100 \<rparr>)]"
      ValueError "[(0, coerced_row sample_pyfloat (raw_row \<lparr> partner_gmv := Num 100 \<rparr>))]"]
    ingest_rows [of sample_pyfloat "[(0, raw_row)]"]
  by (simp add: float_columns_def non_numeric_def raw_row_def sample_pyfloat_def
      sample_number_def coerced_row_def float_value_def)

end
